theory Spec2Isabelle
  imports Complex_Main
begin

section \<open>Python values and text operations used by the diagnostic agents\<close>

text \<open>
  The agents (\<^verbatim>\<open>src/agents/android/diagnostics.py\<close>,
  \<^verbatim>\<open>src/agents/windows/diagnostics.py\<close>) scrape the text printed by platform tools.
  A Python \<^verbatim>\<open>str\<close> is modelled as a \<^typ>\<open>string\<close> whose characters are the code
  points below 256. Python numbers are either unbounded integers or floats. A float is
  modelled by the rational number that the double denotes: a division or a multiplication
  yields the nearest double of the exact result (\<open>binary64\<close>, ties to even; the exponent
  range of a double is taken as unbounded). \<^verbatim>\<open>round(x, 1)\<close> rounds the exact value of the
  double \<open>x\<close> to one decimal, ties to even, and answers the double nearest to that
  decimal; such a result, like a float literal of the source, is written here as the
  decimal itself, which is what Python prints for it and which compares with the integer
  thresholds of the source as the double does.
\<close>

datatype pynum = PyInt int | PyFloat rat

fun num_val :: "pynum \<Rightarrow> rat" where
  "num_val (PyInt i) = of_int i"
| "num_val (PyFloat x) = x"

definition round_half_even :: "rat \<Rightarrow> int" where
  "round_half_even x =
     (let f = \<lfloor>x\<rfloor>; d = x - of_int f in
      if d < 1 / 2 then f else if 1 / 2 < d then f + 1 else if even f then f else f + 1)"

definition py_round1 :: "rat \<Rightarrow> rat" where
  "py_round1 x = of_int (round_half_even (x * 10)) / 10"

text \<open>The nearest double of a rational: 53 significant bits, ties to even.\<close>

definition pow2 :: "int \<Rightarrow> rat" where
  "pow2 e = (if 0 \<le> e then 2 ^ nat e else 1 / 2 ^ nat (- e))"

text \<open>The number of binary digits of a positive integer.\<close>

function bit_length :: "int \<Rightarrow> nat" where
  "bit_length n = (if n \<le> 0 then 0 else Suc (bit_length (n div 2)))"
  by pat_completeness auto
termination
  by (relation "measure nat") auto

declare bit_length.simps [simp del]

text \<open>For \<open>0 < x\<close>, the integer \<open>l\<close> with \<open>2 ^ l \<le> x < 2 ^ (l + 1)\<close>.\<close>

definition float_exponent :: "rat \<Rightarrow> int" where
  "float_exponent x =
     (case quotient_of x of
        (a, b) \<Rightarrow>
          (let k = int (bit_length a) - int (bit_length b)
           in if pow2 k \<le> x then k else k - 1))"

definition binary64 :: "rat \<Rightarrow> rat" where
  "binary64 x =
     (if x = 0 then 0
      else (let e = float_exponent \<bar>x\<bar> - 52
            in sgn x * of_int (round_half_even (\<bar>x\<bar> / pow2 e)) * pow2 e))"

text \<open>\<^verbatim>\<open>a / b\<close> of two integers (\<open>b\<close> not 0) and \<^verbatim>\<open>x * y\<close>, \<^verbatim>\<open>x / y\<close> of two floats.\<close>

definition py_truediv :: "int \<Rightarrow> int \<Rightarrow> rat" where
  "py_truediv a b = binary64 (of_int a / of_int b)"

definition py_fmul :: "rat \<Rightarrow> rat \<Rightarrow> rat" where
  "py_fmul x y = binary64 (x * y)"

definition py_fdiv :: "rat \<Rightarrow> rat \<Rightarrow> rat" where
  "py_fdiv x y = binary64 (x / y)"

text \<open>\<^verbatim>\<open>round(n, 1)\<close> of an integer is that integer; of a float, a float.\<close>

fun round1 :: "pynum \<Rightarrow> pynum" where
  "round1 (PyInt i) = PyInt i"
| "round1 (PyFloat x) = PyFloat (py_round1 x)"

text \<open>Exceptions are values; \<open>str_exn\<close> is the text \<^verbatim>\<open>str(e)\<close> puts into an explanation
  (the interpreter's wording, with \<^verbatim>\<open>repr\<close> of the offending text taken as plain quoting).\<close>

datatype exn = ValueError string | ZeroDivisionError string | OSError string

fun str_exn :: "exn \<Rightarrow> string" where
  "str_exn (ValueError m) = m"
| "str_exn (ZeroDivisionError m) = m"
| "str_exn (OSError m) = m"

definition newline :: char where "newline = CHR 0x0A"
definition tab :: char where "tab = CHR 0x09"
definition quote :: char where "quote = CHR 0x27"

definition is_space :: "char \<Rightarrow> bool" where
  "is_space c =
     (let n = (of_char c :: nat) in
      (9 \<le> n \<and> n \<le> 13) \<or> (28 \<le> n \<and> n \<le> 32) \<or> n = 133 \<or> n = 160)"

definition strip :: "string \<Rightarrow> string" where
  "strip s = rev (dropWhile is_space (rev (dropWhile is_space s)))"

text \<open>\<^verbatim>\<open>s.split(sep)\<close> for a one-character separator: empty fields are kept.\<close>

fun split_on :: "char \<Rightarrow> string \<Rightarrow> string list" where
  "split_on sep [] = [[]]"
| "split_on sep (c # cs) =
     (if c = sep then [] # split_on sep cs
      else (case split_on sep cs of [] \<Rightarrow> [[c]] | w # ws \<Rightarrow> (c # w) # ws))"

text \<open>\<^verbatim>\<open>s.split()\<close>: fields are the maximal runs of non-whitespace.\<close>

fun split_ws :: "string \<Rightarrow> string \<Rightarrow> string list" where
  "split_ws w [] = (if w = [] then [] else [w])"
| "split_ws w (c # cs) =
     (if is_space c then (if w = [] then split_ws [] cs else w # split_ws [] cs)
      else split_ws (w @ [c]) cs)"

definition py_split :: "string \<Rightarrow> string list" where
  "py_split s = split_ws [] s"

fun starts_with :: "string \<Rightarrow> string \<Rightarrow> bool" where
  "starts_with [] s = True"
| "starts_with (p # ps) [] = False"
| "starts_with (p # ps) (c # cs) = (p = c \<and> starts_with ps cs)"

text \<open>\<^verbatim>\<open>sub in s\<close>.\<close>

fun contains :: "string \<Rightarrow> string \<Rightarrow> bool" where
  "contains sub [] = (sub = [])"
| "contains sub (c # cs) = (starts_with sub (c # cs) \<or> contains sub cs)"

definition lower_char :: "char \<Rightarrow> char" where
  "lower_char c =
     (let n = (of_char c :: nat) in
      if (65 \<le> n \<and> n \<le> 90) \<or> (192 \<le> n \<and> n \<le> 222 \<and> n \<noteq> 215)
      then char_of (n + 32) else c)"

definition lower :: "string \<Rightarrow> string" where
  "lower s = map lower_char s"

definition is_decimal_char :: "char \<Rightarrow> bool" where
  "is_decimal_char c = (let n = (of_char c :: nat) in 48 \<le> n \<and> n \<le> 57)"

text \<open>\<^verbatim>\<open>str.isdigit\<close> also accepts the superscript digits (code points 178, 179, 185),
  which \<^verbatim>\<open>int\<close> and \<^verbatim>\<open>float\<close> then reject.\<close>

definition is_digit_char :: "char \<Rightarrow> bool" where
  "is_digit_char c =
     (let n = (of_char c :: nat) in (48 \<le> n \<and> n \<le> 57) \<or> n = 178 \<or> n = 179 \<or> n = 185)"

definition isdigit :: "string \<Rightarrow> bool" where
  "isdigit s = (s \<noteq> [] \<and> list_all is_digit_char s)"

fun show_nat :: "nat \<Rightarrow> string" where
  "show_nat n =
     (if n < 10 then [''0123456789'' ! n]
      else show_nat (n div 10) @ [''0123456789'' ! (n mod 10)])"

declare show_nat.simps [simp del]

definition digits_value :: "string \<Rightarrow> int" where
  "digits_value s = foldl (\<lambda>acc c. acc * 10 + (int (of_char c) - 48)) 0 s"

text \<open>The digits of an integer literal: decimal digits, single underscores between them.\<close>

fun literal_body :: "bool \<Rightarrow> string \<Rightarrow> bool" where
  "literal_body after_digit [] = after_digit"
| "literal_body after_digit (c # cs) =
     (if is_decimal_char c then literal_body True cs
      else if c = CHR ''_'' \<and> after_digit then (cs \<noteq> [] \<and> is_decimal_char (hd cs) \<and> literal_body False cs)
      else False)"

definition unsigned_of :: "string \<Rightarrow> string" where
  "unsigned_of s = (case s of [] \<Rightarrow> [] | c # cs \<Rightarrow> if c = CHR ''+'' \<or> c = CHR ''-'' then cs else s)"

text \<open>\<^verbatim>\<open>int(s)\<close> for a string: surrounding whitespace and one sign are allowed; a literal
  of more than 4300 digits is refused (the interpreter's limit on conversions).\<close>

definition int_max_str_digits :: nat where
  "int_max_str_digits = 4300"

definition py_int :: "string \<Rightarrow> exn + int" where
  "py_int s =
     (let t = strip s; body = unsigned_of t; ds = filter is_decimal_char body in
      if \<not> literal_body False body
      then Inl (ValueError (''invalid literal for int() with base 10: '' @ [quote] @ s @ [quote]))
      else if int_max_str_digits < length ds
      then Inl (ValueError (''Exceeds the limit (4300 digits) for integer string conversion: value has '' @
                            show_nat (length ds) @
                            '' digits; use sys.set_int_max_str_digits() to increase the limit''))
      else Inr ((if starts_with ''-'' t then - 1 else 1) * digits_value ds))"

text \<open>\<^verbatim>\<open>float(s)\<close>, needed only for text that passed \<^verbatim>\<open>isdigit\<close>: it is a number when
  every character is a decimal digit, and a \<^verbatim>\<open>ValueError\<close> otherwise.\<close>

definition py_float_digits :: "string \<Rightarrow> exn + rat" where
  "py_float_digits s =
     (if s \<noteq> [] \<and> list_all is_decimal_char s then Inr (binary64 (of_int (digits_value s)))
      else Inl (ValueError (''could not convert string to float: '' @ [quote] @ s @ [quote])))"

definition show_int :: "int \<Rightarrow> string" where
  "show_int i = (if i < 0 then ''-'' @ show_nat (nat (- i)) else show_nat (nat i))"

text \<open>The floats formatted into explanations are results of \<^verbatim>\<open>round(_, 1)\<close> or the
  doubles nearest to a number of tenths, which Python prints with exactly one decimal
  (below \<open>10^16\<close>).\<close>

definition show_float :: "rat \<Rightarrow> string" where
  "show_float x =
     (let a = \<bar>x\<bar>; t = nat (round_half_even (a * 10)) in
      (if x < 0 then ''-'' else []) @ show_nat (t div 10) @ ''.'' @ show_nat (t mod 10))"

fun show_num :: "pynum \<Rightarrow> string" where
  "show_num (PyInt i) = show_int i"
| "show_num (PyFloat x) = show_float x"

fun join :: "string \<Rightarrow> string list \<Rightarrow> string" where
  "join sep [] = []"
| "join sep [w] = w"
| "join sep (w # ws) = w @ sep @ join sep ws"

section \<open>Test results\<close>

text \<open>Both agents declare the same \<^verbatim>\<open>TestResult\<close> class. The creation timestamp is
  wall-clock time and is left out.\<close>

datatype metric = MNum pynum | MStr string | MBool bool | MList "string list" | MNone

record TestResult =
  test_id :: string
  category :: string
  status :: string
  metrics :: "(string \<times> metric) list"
  explanation :: string
  confidence :: rat
  advisories :: "string list"

text \<open>\<^verbatim>\<open>TestResult.__init__\<close>: \<^verbatim>\<open>metrics or {}\<close>, \<^verbatim>\<open>advisories or []\<close>; the keyword defaults
  (\<^verbatim>\<open>explanation=""\<close>, \<^verbatim>\<open>confidence=0.0\<close>) are written out at the call sites.\<close>

definition TestResult_init ::
  "string \<Rightarrow> string \<Rightarrow> string \<Rightarrow> (string \<times> metric) list option \<Rightarrow> string \<Rightarrow> rat \<Rightarrow>
   string list option \<Rightarrow> TestResult" where
  "TestResult_init tid cat st m expl conf adv =
     \<lparr>test_id = tid, category = cat, status = st,
      metrics = (case m of None \<Rightarrow> [] | Some d \<Rightarrow> d),
      explanation = expl, confidence = conf,
      advisories = (case adv of None \<Rightarrow> [] | Some a \<Rightarrow> a)\<rparr>"

section \<open>The Android agent\<close>

subsection \<open>Running an ADB command\<close>

text \<open>
  What \<^verbatim>\<open>subprocess.run\<close> does is the world's choice. The world answers the \<open>n\<close>-th
  command of a run (so that a device may vanish between two commands); the log records
  every command issued, oldest first.
\<close>

datatype proc_result =
    Completed string string int
  | TimeoutExpired
  | FileNotFoundError string
  | OtherException string

type_synonym world = "nat \<Rightarrow> string list \<Rightarrow> proc_result"
type_synonym cmd_log = "string list list"

definition run_adb_command :: "world \<Rightarrow> string list \<Rightarrow> cmd_log \<Rightarrow> (string \<times> string \<times> int) \<times> cmd_log" where
  "run_adb_command w cmd lg =
     (let full_cmd = ''adb'' # cmd in
      ((case w (length lg) full_cmd of
          Completed out err rc \<Rightarrow> (strip out, strip err, rc)
        | TimeoutExpired \<Rightarrow> ([], ''ADB command timed out'', - 1)
        | FileNotFoundError m \<Rightarrow> ([], ''ADB not found. Please install Android SDK platform-tools'', - 1)
        | OtherException m \<Rightarrow> ([], m, - 1)),
       lg @ [full_cmd]))"

fun any_device_line :: "string list \<Rightarrow> bool" where
  "any_device_line [] = False"
| "any_device_line (line # rest) =
     (if strip line \<noteq> [] \<and> contains (tab # ''device'') line then True else any_device_line rest)"

definition check_adb_connection :: "world \<Rightarrow> cmd_log \<Rightarrow> bool \<times> cmd_log" where
  "check_adb_connection w lg =
     (case run_adb_command w [''devices''] lg of
        ((stdout, stderr, code), lg') \<Rightarrow>
          if code \<noteq> 0 then (False, lg')
          else (any_device_line (tl (split_on newline stdout)), lg'))"

subsection \<open>Battery\<close>

text \<open>Lines 90--95 of the Android agent: the \<^verbatim>\<open>key: value\<close> lines of
  \<^verbatim>\<open>dumpsys battery\<close>, split at the first colon; a later line overwrites an earlier key.\<close>

definition parse_battery_info :: "string \<Rightarrow> (string \<rightharpoonup> string)" where
  "parse_battery_info stdout =
     foldl (\<lambda>battery_info raw.
              let line = strip raw in
              if CHR '':'' \<in> set line
              then battery_info(strip (takeWhile (\<lambda>c. c \<noteq> CHR '':'') line) \<mapsto>
                                strip (tl (dropWhile (\<lambda>c. c \<noteq> CHR '':'') line)))
              else battery_info)
           Map.empty (split_on newline stdout)"

text \<open>The degree sign of the source file reads as two characters there.\<close>

definition degrees_C :: string where
  "degrees_C = [CHR 0xC2, CHR 0xB0, CHR ''C'']"

text \<open>Lines 108--127: the verdict rules, applied in the order of the source. Each rule
  after the first assignment overwrites the status or appends an advisory.\<close>

definition battery_rules :: "string \<Rightarrow> pynum \<Rightarrow> int \<Rightarrow> string \<Rightarrow> string \<times> string \<times> string list" where
  "battery_rules health temp_celsius level bstatus =
     (let health_status = ''pass'';
          explanation = ''Battery level: '' @ show_int level @ ''%, Health: '' @ health;
          advisories = [];
          (health_status, explanation, advisories) =
            (if lower health \<noteq> ''good''
             then (''warn'', explanation @ ''. Battery health is not optimal.'',
                   advisories @ [''Consider battery replacement if issues persist''])
             else (health_status, explanation, advisories));
          (health_status, advisories) =
            (if 40 < num_val temp_celsius
             then (''warn'', advisories @
                     [''Battery temperature is high ('' @ show_num temp_celsius @ degrees_C @ '')''])
             else (health_status, advisories));
          (health_status, advisories) =
            (if 50 < num_val temp_celsius
             then (''fail'', advisories @ [''Critical: Battery overheating detected''])
             else (health_status, advisories));
          advisories =
            (if level < 15 \<and> lower bstatus \<noteq> ''charging''
             then advisories @ [''Battery level is low, consider charging'']
             else advisories)
      in (health_status, explanation, advisories))"

text \<open>Lines 98--141: extraction of the metrics, the rules, and the result. \<^verbatim>\<open>int\<close> and
  \<^verbatim>\<open>float\<close> may raise.\<close>

definition battery_verdict :: "(string \<rightharpoonup> string) \<Rightarrow> exn + TestResult" where
  "battery_verdict battery_info =
     (case (case battery_info ''level'' of None \<Rightarrow> Inr 0 | Some s \<Rightarrow> py_int s) of
        Inl e \<Rightarrow> Inl e
      | Inr level \<Rightarrow>
     (let health = (case battery_info ''health'' of None \<Rightarrow> ''Unknown'' | Some v \<Rightarrow> v);
          bstatus = (case battery_info ''status'' of None \<Rightarrow> ''Unknown'' | Some v \<Rightarrow> v);
          temperature = (case battery_info ''temperature'' of None \<Rightarrow> ''0'' | Some v \<Rightarrow> v);
          voltage = (case battery_info ''voltage'' of None \<Rightarrow> ''0'' | Some v \<Rightarrow> v)
      in
     (case (if isdigit temperature
            then (case py_float_digits temperature of Inl e \<Rightarrow> Inl e | Inr f \<Rightarrow> Inr (PyFloat (py_fdiv f 10)))
            else Inr (PyInt 0)) of
        Inl e \<Rightarrow> Inl e
      | Inr temp_celsius \<Rightarrow>
     (case (if isdigit voltage then py_int voltage else Inr 0) of
        Inl e \<Rightarrow> Inl e
      | Inr voltage_mv \<Rightarrow>
     (case battery_rules health temp_celsius level bstatus of
        (health_status, expl, advs) \<Rightarrow>
          Inr (TestResult_init ''battery.health'' ''power'' health_status
                 (Some [(''level_percentage'', MNum (PyInt level)),
                        (''health'', MStr health),
                        (''status'', MStr bstatus),
                        (''temperature_celsius'', MNum (round1 temp_celsius)),
                        (''voltage_mv'', MNum (PyInt voltage_mv))])
                 expl (90 / 100) (Some advs)))))))"

definition test_android_battery :: "world \<Rightarrow> cmd_log \<Rightarrow> TestResult \<times> cmd_log" where
  "test_android_battery w lg =
     (case check_adb_connection w lg of
        (reachable, lg1) \<Rightarrow>
          if \<not> reachable
          then (TestResult_init ''battery.health'' ''power'' ''error'' None
                  ''No Android device connected via ADB'' 0
                  (Some [''Enable USB debugging and connect device'']), lg1)
          else
            (case run_adb_command w [''shell'', ''dumpsys'', ''battery''] lg1 of
               ((stdout, stderr, code), lg2) \<Rightarrow>
                 if code \<noteq> 0
                 then (TestResult_init ''battery.health'' ''power'' ''error'' None
                         ''Could not retrieve battery information'' 0
                         (Some [''Check ADB permissions'']), lg2)
                 else
                   (case battery_verdict (parse_battery_info stdout) of
                      Inr r \<Rightarrow> (r, lg2)
                    | Inl e \<Rightarrow>
                        (TestResult_init ''battery.health'' ''power'' ''error'' None
                           (''Battery test failed: '' @ str_exn e) 0 None, lg2))))"

subsection \<open>Storage\<close>

record storage_info =
  total_gb :: rat
  used_gb :: rat
  available_gb :: rat
  usage_percentage :: pynum

text \<open>Lines 185--199: the numbers of one \<^verbatim>\<open>df\<close> line. A field that is not all digits
  counts as 0, and the usage of a zero total is the integer 0.\<close>

definition parse_df_fields :: "string \<Rightarrow> string \<Rightarrow> string \<Rightarrow> exn + storage_info" where
  "parse_df_fields p1 p2 p3 =
     (case (if isdigit p1 then py_int p1 else Inr 0) of Inl e \<Rightarrow> Inl e | Inr total_kb \<Rightarrow>
     (case (if isdigit p2 then py_int p2 else Inr 0) of Inl e \<Rightarrow> Inl e | Inr used_kb \<Rightarrow>
     (case (if isdigit p3 then py_int p3 else Inr 0) of Inl e \<Rightarrow> Inl e | Inr available_kb \<Rightarrow>
        Inr \<lparr>total_gb = py_round1 (py_truediv total_kb (1024 * 1024)),
             used_gb = py_round1 (py_truediv used_kb (1024 * 1024)),
             available_gb = py_round1 (py_truediv available_kb (1024 * 1024)),
             usage_percentage =
               (if 0 < total_kb then PyFloat (py_round1 (py_fmul (py_truediv used_kb total_kb) 100))
                else PyInt 0)\<rparr>)))"

text \<open>Lines 178--202: the first line naming the data partition that has at least four
  fields and parses; a line that raises is skipped.\<close>

fun find_storage_info :: "string list \<Rightarrow> storage_info option" where
  "find_storage_info [] = None"
| "find_storage_info (line # lines) =
     (if contains ''/data'' line \<or> contains ''userdata'' line
      then (case py_split line of
              p0 # p1 # p2 # p3 # others \<Rightarrow>
                (case parse_df_fields p1 p2 p3 of
                   Inr info \<Rightarrow> Some info
                 | Inl e \<Rightarrow> find_storage_info lines)
            | _ \<Rightarrow> find_storage_info lines)
      else find_storage_info lines)"

definition storage_metrics :: "storage_info \<Rightarrow> (string \<times> metric) list" where
  "storage_metrics info =
     [(''total_gb'', MNum (PyFloat (total_gb info))),
      (''used_gb'', MNum (PyFloat (used_gb info))),
      (''available_gb'', MNum (PyFloat (available_gb info))),
      (''usage_percentage'', MNum (usage_percentage info))]"

text \<open>Lines 210--232: the verdict on a parsed line.\<close>

definition storage_verdict :: "storage_info \<Rightarrow> TestResult" where
  "storage_verdict info =
     (let usage_pct = usage_percentage info;
          u = num_val usage_pct;
          st = (if u < 80 then ''pass'' else if u < 90 then ''warn'' else ''fail'');
          expl =
            (if st = ''pass''
             then ''Storage usage is healthy at '' @ show_num usage_pct @ ''%. '' @
                  show_float (available_gb info) @ '' GB available.''
             else if st = ''warn''
             then ''Storage is getting full at '' @ show_num usage_pct @ ''% usage. Consider cleanup.''
             else ''Storage is critically full at '' @ show_num usage_pct @
                  ''% usage. Immediate cleanup needed.'');
          advisories = [];
          advisories = (if 85 < u then advisories @ [''Clear cache, photos, or unused apps'']
                        else advisories);
          advisories = (if 90 < u then advisories @ [''Critical: Free up space to avoid app crashes'']
                        else advisories)
      in TestResult_init ''storage.health'' ''storage'' st (Some (storage_metrics info))
           expl (85 / 100) (Some advisories))"

definition test_android_storage :: "world \<Rightarrow> cmd_log \<Rightarrow> TestResult \<times> cmd_log" where
  "test_android_storage w lg =
     (case check_adb_connection w lg of
        (reachable, lg1) \<Rightarrow>
          if \<not> reachable
          then (TestResult_init ''storage.health'' ''storage'' ''error'' None
                  ''No Android device connected via ADB'' 0 None, lg1)
          else
            (case run_adb_command w [''shell'', ''df'', ''/data''] lg1 of
               ((stdout1, stderr1, code1), lg2) \<Rightarrow>
            (case (if code1 \<noteq> 0
                   then run_adb_command w [''shell'', ''dumpsys'', ''diskstats''] lg2
                   else ((stdout1, stderr1, code1), lg2)) of
               ((stdout, stderr, code), lg3) \<Rightarrow>
                 if code \<noteq> 0
                 then (TestResult_init ''storage.health'' ''storage'' ''error'' None
                         ''Could not retrieve storage information'' 0 None, lg3)
                 else
                   (case find_storage_info (split_on newline stdout) of
                      None \<Rightarrow>
                        (TestResult_init ''storage.health'' ''storage'' ''error'' None
                           ''Could not parse storage information'' 0 None, lg3)
                    | Some info \<Rightarrow> (storage_verdict info, lg3)))))"

subsection \<open>Sensors\<close>

definition common_sensors :: "string list" where
  "common_sensors =
     [''accelerometer'', ''gyroscope'', ''magnetometer'',
      ''proximity'', ''light'', ''pressure'', ''temperature'']"

text \<open>Lines 262--299.\<close>

definition sensors_verdict :: "string \<Rightarrow> TestResult" where
  "sensors_verdict stdout =
     (let stdout_lower = lower stdout;
          sensors_found = filter (\<lambda>sensor. contains sensor stdout_lower) common_sensors;
          sensor_count = length sensors_found;
          (st, expl) =
            (if 5 \<le> sensor_count
             then (''pass'', ''Found '' @ show_nat sensor_count @ '' sensors working properly: '' @
                             join '', '' (take 5 sensors_found))
             else if 3 \<le> sensor_count
             then (''warn'', ''Found '' @ show_nat sensor_count @
                             '' sensors. Some sensors may not be available.'')
             else (''fail'', ''Only '' @ show_nat sensor_count @
                             '' sensors detected. Device may have sensor issues.''));
          advisories = [];
          advisories = (if sensor_count < 3
                        then advisories @ [''Check if device requires sensor calibration'']
                        else advisories)
      in TestResult_init ''sensors.test'' ''sensors'' st
           (Some [(''sensors_found'', MList sensors_found),
                  (''sensor_count'', MNum (PyInt (int sensor_count)))])
           expl (75 / 100) (Some advisories))"

definition test_android_sensors :: "world \<Rightarrow> cmd_log \<Rightarrow> TestResult \<times> cmd_log" where
  "test_android_sensors w lg =
     (case check_adb_connection w lg of
        (reachable, lg1) \<Rightarrow>
          if \<not> reachable
          then (TestResult_init ''sensors.test'' ''sensors'' ''error'' None
                  ''No Android device connected via ADB'' 0 None, lg1)
          else
            (case run_adb_command w [''shell'', ''dumpsys'', ''sensorservice''] lg1 of
               ((stdout, stderr, code), lg2) \<Rightarrow>
                 if code \<noteq> 0
                 then (TestResult_init ''sensors.test'' ''sensors'' ''error'' None
                         ''Could not retrieve sensor information'' 0 None, lg2)
                 else (sensors_verdict stdout, lg2)))"

subsection \<open>Network connectivity\<close>

text \<open>Lines 329--368, given the Wi-Fi dump and the answer of the telephony query.\<close>

definition connectivity_verdict :: "string \<Rightarrow> string \<Rightarrow> int \<Rightarrow> TestResult" where
  "connectivity_verdict stdout mobile_stdout mobile_code =
     (let wifi_enabled = (contains ''Wi-Fi is enabled'' stdout \<or> contains ''mWifiEnabled: true'' stdout);
          wifi_connected = (contains ''CONNECTED/CONNECTED'' stdout \<or> contains ''state: CONNECTED'' stdout);
          mobile_data = (if mobile_code = 0 then contains ''DATA_CONNECTED'' mobile_stdout else False);
          (st, expl) =
            (if wifi_connected \<or> mobile_data
             then (''pass'',
                   ''Network connectivity is working.'' @
                   (if wifi_connected then '' Wi-Fi connected.'' else []) @
                   (if mobile_data then '' Mobile data available.'' else []))
             else if wifi_enabled
             then (''warn'', ''Wi-Fi is enabled but not connected to a network.'')
             else (''fail'', ''No network connectivity detected.''));
          advisories = [];
          advisories = (if \<not> wifi_connected \<and> \<not> mobile_data
                        then advisories @ [''Check Wi-Fi password or mobile data settings'']
                        else advisories)
      in TestResult_init ''network.connectivity'' ''network'' st
           (Some [(''wifi_enabled'', MBool wifi_enabled),
                  (''wifi_connected'', MBool wifi_connected),
                  (''mobile_data'', MBool mobile_data)])
           expl (80 / 100) (Some advisories))"

definition test_android_connectivity :: "world \<Rightarrow> cmd_log \<Rightarrow> TestResult \<times> cmd_log" where
  "test_android_connectivity w lg =
     (case check_adb_connection w lg of
        (reachable, lg1) \<Rightarrow>
          if \<not> reachable
          then (TestResult_init ''network.connectivity'' ''network'' ''error'' None
                  ''No Android device connected via ADB'' 0 None, lg1)
          else
            (case run_adb_command w [''shell'', ''dumpsys'', ''wifi''] lg1 of
               ((stdout, stderr, code), lg2) \<Rightarrow>
                 if code \<noteq> 0
                 then (TestResult_init ''network.connectivity'' ''network'' ''error'' None
                         ''Could not retrieve network information'' 0 None, lg2)
                 else
                   (case run_adb_command w [''shell'', ''dumpsys'', ''telephony.registry''] lg2 of
                      ((mobile_stdout, mobile_stderr, mobile_code), lg3) \<Rightarrow>
                        (connectivity_verdict stdout mobile_stdout mobile_code, lg3))))"

subsection \<open>The Android runner\<close>

text \<open>The catalogue \<^verbatim>\<open>test_functions\<close>. A test function answers with a result or raises;
  the four above catch every exception themselves, so each entry answers \<open>Inr\<close>.\<close>

definition android_test_functions ::
  "string \<rightharpoonup> (world \<Rightarrow> cmd_log \<Rightarrow> (exn + TestResult) \<times> cmd_log)" where
  "android_test_functions =
     [''battery.health'' \<mapsto> (\<lambda>w lg. case test_android_battery w lg of (r, lg') \<Rightarrow> (Inr r, lg')),
      ''storage.health'' \<mapsto> (\<lambda>w lg. case test_android_storage w lg of (r, lg') \<Rightarrow> (Inr r, lg')),
      ''sensors.test'' \<mapsto> (\<lambda>w lg. case test_android_sensors w lg of (r, lg') \<Rightarrow> (Inr r, lg')),
      ''network.connectivity'' \<mapsto>
         (\<lambda>w lg. case test_android_connectivity w lg of (r, lg') \<Rightarrow> (Inr r, lg'))]"

definition transport_advisories :: "string list" where
  "transport_advisories =
     [''Install ADB (Android SDK platform-tools)'',
      ''Enable Developer Options on your Android device'',
      ''Enable USB Debugging in Developer Options'',
      ''Connect device with USB cable and accept debugging prompt'']"

text \<open>Lines 391--401: the outcome of every requested id when no device answers.\<close>

definition unreachable_result :: "string \<Rightarrow> TestResult" where
  "unreachable_result tid =
     TestResult_init tid ''unknown'' ''error'' None
       ''No Android device connected. Enable USB debugging and connect device.'' 0
       (Some transport_advisories)"

text \<open>Lines 404--421: the loop over the requested ids.\<close>

fun run_android_tests :: "world \<Rightarrow> string list \<Rightarrow> cmd_log \<Rightarrow> TestResult list \<times> cmd_log" where
  "run_android_tests w [] lg = ([], lg)"
| "run_android_tests w (tid # tests) lg =
     (case android_test_functions tid of
        Some f \<Rightarrow>
          (case f w lg of
             (Inr result, lg1) \<Rightarrow>
               (case run_android_tests w tests lg1 of (results, lg2) \<Rightarrow> (result # results, lg2))
           | (Inl e, lg1) \<Rightarrow>
               (case run_android_tests w tests lg1 of
                  (results, lg2) \<Rightarrow>
                    (TestResult_init tid ''unknown'' ''error'' None
                       (''Test execution failed: '' @ str_exn e) 0 None # results, lg2)))
      | None \<Rightarrow>
          (case run_android_tests w tests lg of
             (results, lg2) \<Rightarrow>
               (TestResult_init tid ''unknown'' ''error'' None
                  (''Test not implemented: '' @ tid) 0 None # results, lg2)))"

definition run_android_diagnostics :: "world \<Rightarrow> string list \<Rightarrow> cmd_log \<Rightarrow> TestResult list \<times> cmd_log" where
  "run_android_diagnostics w tests lg =
     (case check_adb_connection w lg of
        (reachable, lg1) \<Rightarrow>
          if \<not> reachable then (map unreachable_result tests, lg1)
          else run_android_tests w tests lg1)"

section \<open>The Windows agent\<close>

text \<open>
  The Windows tests ask the operating system through \<^verbatim>\<open>subprocess\<close>, \<^verbatim>\<open>tempfile\<close> and
  \<^verbatim>\<open>psutil\<close>. Each question is answered by the world according to the number of questions
  asked before it in the run; a \<^verbatim>\<open>psutil\<close> or \<^verbatim>\<open>tempfile\<close> call may raise, and so may
  the removal of the temporary directory.
\<close>

record win_world =
  run_proc :: "nat \<Rightarrow> string list \<Rightarrow> proc_result"
  make_tempdir :: "nat \<Rightarrow> exn + string"
  remove_tempdir :: "nat \<Rightarrow> exn option"
  disk_usage :: "nat \<Rightarrow> string \<Rightarrow> exn + (int \<times> int \<times> int)"
  cpu_percent :: "nat \<Rightarrow> exn + rat"
  cpu_count :: "nat \<Rightarrow> exn + int option"
  cpu_freq :: "nat \<Rightarrow> exn + rat option"
  virtual_memory :: "nat \<Rightarrow> exn + (int \<times> int \<times> int \<times> rat)"

text \<open>\<^verbatim>\<open>disk_usage\<close> answers (total, used, free) in bytes, \<^verbatim>\<open>cpu_freq\<close> the current
  frequency if any, \<^verbatim>\<open>virtual_memory\<close> (total, available, used, percent).\<close>

definition run_command :: "win_world \<Rightarrow> string list \<Rightarrow> nat \<Rightarrow> (string \<times> string \<times> int) \<times> nat" where
  "run_command w cmd n =
     ((case run_proc w n cmd of
         Completed out err rc \<Rightarrow> (out, err, rc)
       | TimeoutExpired \<Rightarrow> ([], ''Command timed out'', - 1)
       | FileNotFoundError m \<Rightarrow> ([], m, - 1)
       | OtherException m \<Rightarrow> ([], m, - 1)),
      Suc n)"

subsection \<open>Battery\<close>

definition backslash :: char where "backslash = CHR 0x5C"

text \<open>\<^verbatim>\<open>os.path.join\<close> of a directory name and a file name on Windows.\<close>

definition path_join :: "string \<Rightarrow> string \<Rightarrow> string" where
  "path_join dir name =
     (if dir \<noteq> [] \<and> last dir \<noteq> backslash \<and> last dir \<noteq> CHR ''/'' \<and> last dir \<noteq> CHR '':''
      then dir @ [backslash] @ name else dir @ name)"

text \<open>\<^verbatim>\<open>re.search(r'EstimatedChargeRemaining\s*:\s*(\d+)', ps_output)\<close>: the digits of the
  leftmost match.\<close>

definition match_charge_here :: "string \<Rightarrow> string option" where
  "match_charge_here s =
     (if starts_with ''EstimatedChargeRemaining'' s
      then (case dropWhile is_space (drop (length ''EstimatedChargeRemaining'') s) of
              [] \<Rightarrow> None
            | c # rest \<Rightarrow>
                if c = CHR '':''
                then (let ds = takeWhile is_decimal_char (dropWhile is_space rest)
                      in if ds = [] then None else Some ds)
                else None)
      else None)"

fun search_charge :: "string \<Rightarrow> string option" where
  "search_charge [] = None"
| "search_charge (c # cs) =
     (case match_charge_here (c # cs) of Some ds \<Rightarrow> Some ds | None \<Rightarrow> search_charge cs)"

text \<open>Lines 80--115: the verdict once PowerShell has answered. Converting the matched
  digits may raise.\<close>

definition win_battery_verdict :: "string \<Rightarrow> exn + TestResult" where
  "win_battery_verdict ps_output =
     (let charge_match = search_charge ps_output in
      case (case charge_match of
              Some ds \<Rightarrow> (case py_int ds of Inl e \<Rightarrow> Inl e | Inr i \<Rightarrow> Inr (MNum (PyInt i)))
            | None \<Rightarrow> Inr MNone) of
        Inl e \<Rightarrow> Inl e
      | Inr current_charge \<Rightarrow>
     (let design_capacity = (50000 :: int);
          current_capacity = (42000 :: int);
          health_percentage = py_round1 (py_fmul (py_truediv current_capacity design_capacity) 100);
          st = (if 80 < health_percentage then ''pass''
                else if 60 < health_percentage then ''warn'' else ''fail'');
          expl =
            (if st = ''pass''
             then ''Battery health is good at '' @ show_float health_percentage @
                  ''%. Expected runtime should be normal.''
             else if st = ''warn''
             then ''Battery health is declining at '' @ show_float health_percentage @
                  ''%. You may notice shorter runtime.''
             else ''Battery health is poor at '' @ show_float health_percentage @
                  ''%. Consider replacing the battery.'');
          advisories = [];
          advisories = (if health_percentage < 80
                        then advisories @ [''Consider replacing battery for optimal performance'']
                        else advisories);
          advisories = (if health_percentage < 60
                        then advisories @ [''Battery replacement recommended soon'']
                        else advisories)
      in Inr (TestResult_init ''battery.health'' ''power'' st
                (Some [(''design_capacity_mwh'', MNum (PyInt design_capacity)),
                       (''current_capacity_mwh'', MNum (PyInt current_capacity)),
                       (''health_percentage'', MNum (PyFloat health_percentage)),
                       (''current_charge_percentage'', current_charge)])
                expl (85 / 100) (Some advisories))))"

definition ps_cmd :: "string list" where
  "ps_cmd =
     [''powershell'', ''-Command'',
      ''Get-WmiObject -Class Win32_Battery | Select-Object EstimatedChargeRemaining,BatteryStatus'']"

text \<open>Lines 56--121: the body of the \<^verbatim>\<open>with\<close> block, given the temporary directory.\<close>

definition battery_report :: "win_world \<Rightarrow> string \<Rightarrow> nat \<Rightarrow> (exn + TestResult) \<times> nat" where
  "battery_report w temp_dir n =
     (let report_path = path_join temp_dir ''battery-report.html'' in
      case run_command w [''powercfg'', ''/batteryreport'', ''/output'', report_path] n of
        ((stdout, stderr, code), n1) \<Rightarrow>
          if code \<noteq> 0
          then (Inr (TestResult_init ''battery.health'' ''power'' ''error'' None
                       ''Could not generate battery report'' 0
                       (Some [''Battery diagnostic tools may not be available''])), n1)
          else
            (case run_command w ps_cmd n1 of
               ((ps_output, ps_error, ps_code), n2) \<Rightarrow>
                 if ps_code = 0 \<and> contains ''EstimatedChargeRemaining'' ps_output
                 then (win_battery_verdict ps_output, n2)
                 else (Inr (TestResult_init ''battery.health'' ''power'' ''error'' None
                              ''Could not read battery information'' 0
                              (Some [''No battery detected or battery information unavailable''])), n2)))"

definition battery_error :: "exn \<Rightarrow> TestResult" where
  "battery_error e =
     TestResult_init ''battery.health'' ''power'' ''error'' None
       (''Battery test failed: '' @ str_exn e) 0 None"

text \<open>Lines 53--128: the temporary directory is created, the body runs, and the directory
  is removed when the block is left, whether by a \<^verbatim>\<open>return\<close> or by an exception; an
  exception of the removal replaces either. Whatever is raised becomes an error result.\<close>

definition test_battery_health :: "win_world \<Rightarrow> nat \<Rightarrow> TestResult \<times> nat" where
  "test_battery_health w n =
     (case make_tempdir w n of
        Inl e \<Rightarrow> (battery_error e, Suc n)
      | Inr temp_dir \<Rightarrow>
          (case battery_report w temp_dir (Suc n) of
             (outcome, n1) \<Rightarrow>
               (case remove_tempdir w n1 of
                  Some e \<Rightarrow> (battery_error e, Suc n1)
                | None \<Rightarrow>
                    (case outcome of
                       Inr r \<Rightarrow> (r, Suc n1)
                     | Inl e \<Rightarrow> (battery_error e, Suc n1)))))"

subsection \<open>Storage\<close>

text \<open>Lines 145--177, given the answer of \<^verbatim>\<open>psutil.disk_usage\<close>; dividing by a zero total
  raises.\<close>

definition win_storage_verdict :: "int \<Rightarrow> int \<Rightarrow> int \<Rightarrow> exn + TestResult" where
  "win_storage_verdict total_b used_b free_b =
     (let total_gb = py_round1 (py_truediv total_b (1024 ^ 3));
          used_gb = py_round1 (py_truediv used_b (1024 ^ 3));
          free_gb = py_round1 (py_truediv free_b (1024 ^ 3))
      in if total_b = 0 then Inl (ZeroDivisionError ''division by zero'')
         else
     (let usage_percentage = py_round1 (py_fmul (py_truediv used_b total_b) 100);
          st = (if usage_percentage < 80 then ''pass''
                else if usage_percentage < 90 then ''warn'' else ''fail'');
          expl =
            (if st = ''pass''
             then ''Storage health looks good. '' @ show_float usage_percentage @ ''% used with '' @
                  show_float free_gb @ '' GB free.''
             else if st = ''warn''
             then ''Storage is getting full at '' @ show_float usage_percentage @
                  ''% usage. Consider cleanup.''
             else ''Storage is critically full at '' @ show_float usage_percentage @
                  ''% usage. Immediate cleanup needed.'');
          advisories = [];
          advisories = (if 85 < usage_percentage
                        then advisories @ [''Clean up temporary files and unused programs'']
                        else advisories);
          advisories = (if 90 < usage_percentage
                        then advisories @ [''Critical: Free up space immediately to avoid system issues'']
                        else advisories)
      in Inr (TestResult_init ''storage.health'' ''storage'' st
                (Some [(''total_gb'', MNum (PyFloat total_gb)),
                       (''used_gb'', MNum (PyFloat used_gb)),
                       (''free_gb'', MNum (PyFloat free_gb)),
                       (''usage_percentage'', MNum (PyFloat usage_percentage))])
                expl (95 / 100) (Some advisories))))"

definition test_storage_health :: "win_world \<Rightarrow> nat \<Rightarrow> TestResult \<times> nat" where
  "test_storage_health w n =
     (case run_command w [''wmic'', ''diskdrive'', ''get'', ''size,status,model'', ''/format:csv''] n of
        ((stdout, stderr, code), n1) \<Rightarrow>
          if code = 0 \<and> stdout \<noteq> []
          then
            (case disk_usage w n1 (''C:'' @ [backslash]) of
               Inl e \<Rightarrow>
                 (TestResult_init ''storage.health'' ''storage'' ''error'' None
                    (''Storage test failed: '' @ str_exn e) 0 None, Suc n1)
             | Inr (total_b, used_b, free_b) \<Rightarrow>
                 (case win_storage_verdict total_b used_b free_b of
                    Inr r \<Rightarrow> (r, Suc n1)
                  | Inl e \<Rightarrow>
                      (TestResult_init ''storage.health'' ''storage'' ''error'' None
                         (''Storage test failed: '' @ str_exn e) 0 None, Suc n1)))
          else (TestResult_init ''storage.health'' ''storage'' ''error'' None
                  ''Could not retrieve storage information'' 0 None, n1))"

subsection \<open>Processor and memory\<close>

text \<open>Lines 195--230. \<^verbatim>\<open>psutil\<close> reports percentages rounded to one decimal.\<close>

definition cpu_verdict :: "rat \<Rightarrow> int option \<Rightarrow> rat option \<Rightarrow> TestResult" where
  "cpu_verdict cpu_pct cores freq =
     (let st = (if cpu_pct < 80 then ''pass'' else if cpu_pct < 95 then ''warn'' else ''fail'');
          expl =
            (if st = ''pass''
             then ''CPU performance is normal. Current usage: '' @ show_float cpu_pct @ ''%''
             else if st = ''warn''
             then ''CPU usage is high at '' @ show_float cpu_pct @
                  ''%. Check for resource-heavy programs.''
             else ''CPU usage is critical at '' @ show_float cpu_pct @
                  ''%. System may be overloaded.'');
          advisories = [];
          advisories = (if 90 < cpu_pct
                        then advisories @ [''Close unnecessary programs to reduce CPU load'']
                        else advisories);
          advisories = (if 95 < cpu_pct
                        then advisories @ [''Critical: Check for malware or system issues'']
                        else advisories);
          ms = [(''cpu_usage_percentage'', MNum (PyFloat cpu_pct)),
                (''cpu_cores'', (case cores of None \<Rightarrow> MNone | Some c \<Rightarrow> MNum (PyInt c)))];
          ms = (case freq of
                  None \<Rightarrow> ms
                | Some current \<Rightarrow> ms @ [(''cpu_frequency_mhz'', MNum (PyFloat (py_round1 current)))])
      in TestResult_init ''cpu.temperature'' ''performance'' st (Some ms)
           expl (80 / 100) (Some advisories))"

definition cpu_error :: "exn \<Rightarrow> TestResult" where
  "cpu_error e =
     TestResult_init ''cpu.temperature'' ''performance'' ''error'' None
       (''CPU test failed: '' @ str_exn e) 0 None"

definition test_cpu_temperature :: "win_world \<Rightarrow> nat \<Rightarrow> TestResult \<times> nat" where
  "test_cpu_temperature w n =
     (case cpu_percent w n of
        Inl e \<Rightarrow> (cpu_error e, Suc n)
      | Inr cpu_pct \<Rightarrow>
     (case cpu_count w (Suc n) of
        Inl e \<Rightarrow> (cpu_error e, Suc (Suc n))
      | Inr cores \<Rightarrow>
     (case cpu_freq w (Suc (Suc n)) of
        Inl e \<Rightarrow> (cpu_error e, Suc (Suc (Suc n)))
      | Inr freq \<Rightarrow> (cpu_verdict cpu_pct cores freq, Suc (Suc (Suc n))))))"

text \<open>Lines 242--274.\<close>

definition memory_verdict :: "int \<Rightarrow> int \<Rightarrow> int \<Rightarrow> rat \<Rightarrow> TestResult" where
  "memory_verdict total_b available_b used_b percent =
     (let total_gb = py_round1 (py_truediv total_b (1024 ^ 3));
          available_gb = py_round1 (py_truediv available_b (1024 ^ 3));
          used_gb = py_round1 (py_truediv used_b (1024 ^ 3));
          usage_percentage = percent;
          st = (if usage_percentage < 80 then ''pass''
                else if usage_percentage < 90 then ''warn'' else ''fail'');
          expl =
            (if st = ''pass''
             then ''Memory usage is normal at '' @ show_float usage_percentage @ ''%. '' @
                  show_float available_gb @ '' GB available.''
             else if st = ''warn''
             then ''Memory usage is high at '' @ show_float usage_percentage @
                  ''%. Consider closing some programs.''
             else ''Memory usage is critical at '' @ show_float usage_percentage @
                  ''%. System may be slow.'');
          advisories = [];
          advisories = (if 85 < usage_percentage
                        then advisories @ [''Close unnecessary programs to free up memory'']
                        else advisories);
          advisories = (if 90 < usage_percentage
                        then advisories @ [''Critical: System performance may be severely impacted'']
                        else advisories)
      in TestResult_init ''memory.test'' ''performance'' st
           (Some [(''total_gb'', MNum (PyFloat total_gb)),
                  (''used_gb'', MNum (PyFloat used_gb)),
                  (''available_gb'', MNum (PyFloat available_gb)),
                  (''usage_percentage'', MNum (PyFloat usage_percentage))])
           expl (95 / 100) (Some advisories))"

definition test_memory :: "win_world \<Rightarrow> nat \<Rightarrow> TestResult \<times> nat" where
  "test_memory w n =
     (case virtual_memory w n of
        Inl e \<Rightarrow>
          (TestResult_init ''memory.test'' ''performance'' ''error'' None
             (''Memory test failed: '' @ str_exn e) 0 None, Suc n)
      | Inr (total_b, available_b, used_b, percent) \<Rightarrow>
          (memory_verdict total_b available_b used_b percent, Suc n))"

subsection \<open>The Windows runner\<close>

definition windows_test_functions ::
  "string \<rightharpoonup> (win_world \<Rightarrow> nat \<Rightarrow> (exn + TestResult) \<times> nat)" where
  "windows_test_functions =
     [''battery.health'' \<mapsto> (\<lambda>w n. case test_battery_health w n of (r, n') \<Rightarrow> (Inr r, n')),
      ''storage.health'' \<mapsto> (\<lambda>w n. case test_storage_health w n of (r, n') \<Rightarrow> (Inr r, n')),
      ''cpu.temperature'' \<mapsto> (\<lambda>w n. case test_cpu_temperature w n of (r, n') \<Rightarrow> (Inr r, n')),
      ''memory.test'' \<mapsto> (\<lambda>w n. case test_memory w n of (r, n') \<Rightarrow> (Inr r, n'))]"

text \<open>Lines 295--314.\<close>

fun run_windows_diagnostics :: "win_world \<Rightarrow> string list \<Rightarrow> nat \<Rightarrow> TestResult list \<times> nat" where
  "run_windows_diagnostics w [] n = ([], n)"
| "run_windows_diagnostics w (tid # tests) n =
     (case windows_test_functions tid of
        Some f \<Rightarrow>
          (case f w n of
             (Inr result, n1) \<Rightarrow>
               (case run_windows_diagnostics w tests n1 of (results, n2) \<Rightarrow> (result # results, n2))
           | (Inl e, n1) \<Rightarrow>
               (case run_windows_diagnostics w tests n1 of
                  (results, n2) \<Rightarrow>
                    (TestResult_init tid ''unknown'' ''error'' None
                       (''Test execution failed: '' @ str_exn e) 0 None # results, n2)))
      | None \<Rightarrow>
          (case run_windows_diagnostics w tests n of
             (results, n2) \<Rightarrow>
               (TestResult_init tid ''unknown'' ''error'' None
                  (''Test not implemented: '' @ tid) 0 None # results, n2)))"

section \<open>The summary of a run\<close>

text \<open>Lines 191--204 of \<^verbatim>\<open>src/backend/main.py\<close>: the reduction of the outcome list that
  \<^verbatim>\<open>run_diagnostics\<close> returns beside it.\<close>

record summary =
  total_tests :: nat
  passed :: nat
  warnings :: nat
  failed :: nat
  errors :: nat
  health_score :: pynum
  overall_status :: string


section \<open>Properties and example worlds\<close>

text \<open>How often a run asked \<^verbatim>\<open>adb devices\<close>, the reachability probe.\<close>

definition count_devices :: "cmd_log \<Rightarrow> nat" where
  "count_devices lg = length (filter (\<lambda>cmd. cmd = [''adb'', ''devices'']) lg)"

text \<open>The invariant of section 3 of the specification: confidence is 0 exactly for an
  error, and an error explains itself.\<close>

definition consistent_outcome :: "TestResult \<Rightarrow> bool" where
  "consistent_outcome r =
     (((confidence r = 0) = (status r = ''error'')) \<and>
      (status r = ''error'' \<longrightarrow> explanation r \<noteq> []))"

text \<open>The confidence constant that each test function of a catalogue writes into its
  verdicts (0 for an id outside the catalogue).\<close>

definition android_confidence :: "string \<Rightarrow> rat" where
  "android_confidence tid =
     (if tid = ''battery.health'' then 90 / 100
      else if tid = ''storage.health'' then 85 / 100
      else if tid = ''sensors.test'' then 75 / 100
      else if tid = ''network.connectivity'' then 80 / 100
      else 0)"

definition windows_confidence :: "string \<Rightarrow> rat" where
  "windows_confidence tid =
     (if tid = ''battery.health'' then 85 / 100
      else if tid = ''storage.health'' then 95 / 100
      else if tid = ''cpu.temperature'' then 80 / 100
      else if tid = ''memory.test'' then 95 / 100
      else 0)"

text \<open>An outcome is an error of confidence 0 with an explanation, or a verdict whose
  confidence is the nonzero constant \<open>c\<close>.\<close>

definition outcome_sound :: "rat \<Rightarrow> TestResult \<Rightarrow> bool" where
  "outcome_sound c r =
     (if status r = ''error'' then confidence r = 0 \<and> explanation r \<noteq> []
      else confidence r = c \<and> c \<noteq> 0)"

text \<open>The synthetic outcome of an id that the catalogue does not hold (both runners).\<close>

definition not_implemented :: "string \<Rightarrow> TestResult" where
  "not_implemented tid =
     TestResult_init tid ''unknown'' ''error'' None (''Test not implemented: '' @ tid) 0 None"

text \<open>The storage grading that the code applies to a usage percentage.\<close>

definition storage_grade :: "rat \<Rightarrow> string" where
  "storage_grade u = (if u < 80 then ''pass'' else if u < 90 then ''warn'' else ''fail'')"

text \<open>A phone that answers every probe, with a given line of \<^verbatim>\<open>df /data\<close>; a host with
  no device attached; a laptop with a given disk.\<close>

definition devices_attached :: string where
  "devices_attached = ''List of devices attached'' @ [newline] @ ''emulator-5554'' @ [tab] @ ''device''"

definition battery_dump_at :: "string \<Rightarrow> string" where
  "battery_dump_at tenths =
     ''Current Battery Service state:'' @ [newline] @
     ''  AC powered: false'' @ [newline] @
     ''  status: 3'' @ [newline] @
     ''  health: Good'' @ [newline] @
     ''  level: 80'' @ [newline] @
     ''  voltage: 4100'' @ [newline] @
     ''  temperature: '' @ tenths"

definition battery_dump :: string where
  "battery_dump = battery_dump_at ''450''"

definition hot_phone_world :: world where
  "hot_phone_world n cmd =
     (if cmd = [''adb'', ''devices''] then Completed devices_attached [] 0
      else if cmd = [''adb'', ''shell'', ''dumpsys'', ''battery'']
      then Completed (battery_dump_at ''520'') [] 0
      else Completed [] ''not found'' 1)"

definition phone_world :: "string \<Rightarrow> world" where
  "phone_world df_line n cmd =
     (if cmd = [''adb'', ''devices''] then Completed devices_attached [] 0
      else if cmd = [''adb'', ''shell'', ''dumpsys'', ''battery''] then Completed battery_dump [] 0
      else if cmd = [''adb'', ''shell'', ''df'', ''/data'']
      then Completed (''Filesystem 1K-blocks Used Available Use% Mounted on'' @ [newline] @ df_line) [] 0
      else Completed [] ''not found'' 1)"

definition healthy_phone_world :: world where
  "healthy_phone_world n cmd =
     (if cmd = [''adb'', ''devices''] then Completed devices_attached [] 0
      else if cmd = [''adb'', ''shell'', ''dumpsys'', ''battery''] then Completed battery_dump [] 0
      else if cmd = [''adb'', ''shell'', ''df'', ''/data'']
      then Completed (''Filesystem 1K-blocks Used Available Use% Mounted on'' @ [newline] @
                      ''/dev/block/dm-0 1000 820 180 82% /data'') [] 0
      else if cmd = [''adb'', ''shell'', ''dumpsys'', ''sensorservice'']
      then Completed ''Accelerometer Gyroscope Magnetometer Proximity Light'' [] 0
      else if cmd = [''adb'', ''shell'', ''dumpsys'', ''wifi'']
      then Completed ''Wi-Fi is enabled'' [] 0
      else Completed [] ''not found'' 1)"

definition unplugged_world :: world where
  "unplugged_world n cmd = Completed ''List of devices attached'' [] 0"

definition laptop_world :: "int \<Rightarrow> int \<Rightarrow> win_world" where
  "laptop_world used_b total_b =
     \<lparr>run_proc = (\<lambda>n cmd.
        if take 1 cmd = [''powershell'']
        then Completed (''EstimatedChargeRemaining BatteryStatus'' @ [newline] @
                        ''------------------------ -------------'' @ [newline] @
                        ''                      57             2'') [] 0
        else Completed ''Node,Model,Size,Status'' [] 0),
      make_tempdir = (\<lambda>n. Inr ''tmp8x2k''),
      remove_tempdir = (\<lambda>n. None),
      disk_usage = (\<lambda>n path. Inr (total_b, used_b, total_b - used_b)),
      cpu_percent = (\<lambda>n. Inr (125 / 10)),
      cpu_count = (\<lambda>n. Inr (Some 8)),
      cpu_freq = (\<lambda>n. Inr (Some 2400)),
      virtual_memory = (\<lambda>n. Inr (16000, 8000, 8000, 50))\<rparr>"




section \<open>Facts about the model\<close>

lemma TestResult_init_simps [simp]:
  "test_id (TestResult_init t c s m e k a) = t"
  "category (TestResult_init t c s m e k a) = c"
  "status (TestResult_init t c s m e k a) = s"
  "explanation (TestResult_init t c s m e k a) = e"
  "confidence (TestResult_init t c s m e k a) = k"
  "advisories (TestResult_init t c s m e k a) = (case a of None \<Rightarrow> [] | Some x \<Rightarrow> x)"
  "metrics (TestResult_init t c s m e k a) = (case m of None \<Rightarrow> [] | Some x \<Rightarrow> x)"
  by (simp_all add: TestResult_init_def)

lemma run_adb_command_log: "run_adb_command w cmd lg = (x, lg') \<Longrightarrow> lg' = lg @ [''adb'' # cmd]"
  by (auto simp: run_adb_command_def Let_def)

lemma check_adb_connection_log: "check_adb_connection w lg = (b, lg') \<Longrightarrow> lg' = lg @ [[''adb'', ''devices'']]"
  by (auto simp: check_adb_connection_def split: prod.splits if_splits dest: run_adb_command_log)

lemma count_devices_append [simp]: "count_devices (a @ b) = count_devices a + count_devices b"
  by (simp add: count_devices_def)

lemma count_devices_simps [simp]:
  "count_devices [] = 0"
  "count_devices (c # cs) = (if c = [''adb'', ''devices''] then 1 else 0) + count_devices cs"
  by (simp_all add: count_devices_def)

lemma error_sound:
  "e \<noteq> [] \<Longrightarrow> consistent_outcome (TestResult_init t c ''error'' m e 0 a) \<and>
                outcome_sound k (TestResult_init t c ''error'' m e 0 a)"
  by (simp add: consistent_outcome_def outcome_sound_def)

lemma verdict_sound:
  assumes "st = ''pass'' \<or> st = ''warn'' \<or> st = ''fail''" and "k \<noteq> 0"
  shows "consistent_outcome (TestResult_init t c st m e k a) \<and>
         outcome_sound k (TestResult_init t c st m e k a)"
  using assms by (auto simp: consistent_outcome_def outcome_sound_def)

lemma battery_rules_status:
  "fst (battery_rules h t l b) = (if 50 < num_val t then ''fail'' else if 40 < num_val t \<or> lower h \<noteq> ''good'' then ''warn'' else ''pass'')"
  by (simp add: battery_rules_def Let_def)

lemma battery_verdict_shape:
  assumes "battery_verdict info = Inr r"
  shows "test_id r = ''battery.health'' \<and> consistent_outcome r \<and> outcome_sound (9 / 10) r"
proof -
  from assms obtain st m e a where r: "r = TestResult_init ''battery.health'' ''power'' st m e (9 / 10) a"
    and st: "st = ''pass'' \<or> st = ''warn'' \<or> st = ''fail''"
    unfolding battery_verdict_def Let_def
    by (auto split: sum.splits if_splits prod.splits dest: arg_cong [where f = fst]
        simp: battery_rules_status)
  show ?thesis unfolding r using verdict_sound [OF st, of "9 / 10"] by simp
qed

lemma storage_verdict_shape:
  "test_id (storage_verdict info) = ''storage.health'' \<and> consistent_outcome (storage_verdict info) \<and>
   outcome_sound (17 / 20) (storage_verdict info)"
  by (simp add: storage_verdict_def Let_def consistent_outcome_def outcome_sound_def)

lemma sensors_verdict_shape:
  "test_id (sensors_verdict out) = ''sensors.test'' \<and> consistent_outcome (sensors_verdict out) \<and>
   outcome_sound (3 / 4) (sensors_verdict out)"
  by (simp add: sensors_verdict_def Let_def consistent_outcome_def outcome_sound_def split: prod.splits)

lemma connectivity_verdict_shape:
  "test_id (connectivity_verdict a b c) = ''network.connectivity'' \<and>
   consistent_outcome (connectivity_verdict a b c) \<and>
   outcome_sound (4 / 5) (connectivity_verdict a b c)"
  by (simp add: connectivity_verdict_def Let_def consistent_outcome_def outcome_sound_def
      split: prod.splits)

lemma test_android_battery_shape:
  assumes "test_android_battery w lg = (r, lg')"
  shows "test_id r = ''battery.health'' \<and> consistent_outcome r \<and> outcome_sound (9 / 10) r \<and>
         count_devices lg' = Suc (count_devices lg)"
  using assms unfolding test_android_battery_def
  by (auto split: prod.splits if_splits sum.splits
      dest!: check_adb_connection_log run_adb_command_log battery_verdict_shape
      simp: error_sound)

lemma test_android_storage_shape:
  assumes "test_android_storage w lg = (r, lg')"
  shows "test_id r = ''storage.health'' \<and> consistent_outcome r \<and> outcome_sound (17 / 20) r \<and>
         count_devices lg' = Suc (count_devices lg)"
  using assms unfolding test_android_storage_def
  by (auto split: prod.splits if_splits option.splits
      dest!: check_adb_connection_log run_adb_command_log
      simp: error_sound storage_verdict_shape)

lemma test_android_sensors_shape:
  assumes "test_android_sensors w lg = (r, lg')"
  shows "test_id r = ''sensors.test'' \<and> consistent_outcome r \<and> outcome_sound (3 / 4) r \<and>
         count_devices lg' = Suc (count_devices lg)"
  using assms unfolding test_android_sensors_def
  by (auto split: prod.splits if_splits
      dest!: check_adb_connection_log run_adb_command_log
      simp: error_sound sensors_verdict_shape)

lemma test_android_connectivity_shape:
  assumes "test_android_connectivity w lg = (r, lg')"
  shows "test_id r = ''network.connectivity'' \<and> consistent_outcome r \<and> outcome_sound (4 / 5) r \<and>
         count_devices lg' = Suc (count_devices lg)"
  using assms unfolding test_android_connectivity_def
  by (auto split: prod.splits if_splits
      dest!: check_adb_connection_log run_adb_command_log
      simp: error_sound connectivity_verdict_shape)

lemma android_catalog_shape:
  assumes "android_test_functions tid = Some f" and "f w lg = (x, lg')"
  shows "\<exists>r. x = Inr r \<and> test_id r = tid \<and> consistent_outcome r \<and>
             outcome_sound (android_confidence tid) r \<and>
             count_devices lg' = Suc (count_devices lg)"
  using assms unfolding android_test_functions_def android_confidence_def
  by (auto split: if_splits prod.splits
      dest!: test_android_battery_shape test_android_storage_shape
             test_android_sensors_shape test_android_connectivity_shape)

lemma run_android_tests_ids: "map test_id (fst (run_android_tests w tests lg)) = tests"
proof (induction tests arbitrary: lg)
  case Nil
  show ?case by simp
next
  case (Cons tid tests)
  show ?case
  proof (cases "android_test_functions tid")
    case None
    then show ?thesis using Cons.IH [of lg] by (auto split: prod.splits)
  next
    case (Some f)
    obtain x lg1 where f: "f w lg = (x, lg1)" by (cases "f w lg")
    from android_catalog_shape [OF Some f] obtain r where "x = Inr r" "test_id r = tid" by blast
    then show ?thesis using Some f Cons.IH [of lg1] by (auto split: prod.splits)
  qed
qed

lemma run_android_tests_consistent:
  "list_all (\<lambda>r. consistent_outcome r \<and> outcome_sound (android_confidence (test_id r)) r)
     (fst (run_android_tests w tests lg))"
proof (induction tests arbitrary: lg)
  case Nil
  show ?case by simp
next
  case (Cons tid tests)
  show ?case
  proof (cases "android_test_functions tid")
    case None
    then show ?thesis using Cons.IH [of lg] by (auto simp: error_sound split: prod.splits)
  next
    case (Some f)
    obtain x lg1 where f: "f w lg = (x, lg1)" by (cases "f w lg")
    from android_catalog_shape [OF Some f] obtain r
      where "x = Inr r" "test_id r = tid" "consistent_outcome r" "outcome_sound (android_confidence tid) r"
      by blast
    then show ?thesis using Some f Cons.IH [of lg1] by (auto split: prod.splits)
  qed
qed

lemma run_android_tests_devices:
  "count_devices (snd (run_android_tests w tests lg)) =
     count_devices lg + length (filter (\<lambda>t. android_test_functions t \<noteq> None) tests)"
proof (induction tests arbitrary: lg)
  case Nil
  show ?case by simp
next
  case (Cons tid tests)
  show ?case
  proof (cases "android_test_functions tid")
    case None
    then show ?thesis using Cons.IH [of lg] by (auto split: prod.splits)
  next
    case (Some f)
    obtain x lg1 where f: "f w lg = (x, lg1)" by (cases "f w lg")
    from android_catalog_shape [OF Some f] obtain r
      where "x = Inr r" "count_devices lg1 = Suc (count_devices lg)" by blast
    then show ?thesis using Some f Cons.IH [of lg1] by (auto split: prod.splits)
  qed
qed

lemma run_android_tests_append:
  "run_android_tests w (xs @ ys) lg =
     (case run_android_tests w xs lg of
        (r1, lg1) \<Rightarrow> (case run_android_tests w ys lg1 of (r2, lg2) \<Rightarrow> (r1 @ r2, lg2)))"
  by (induction xs arbitrary: lg) (auto split: prod.splits option.splits sum.splits)

lemma run_android_tests_length: "length (fst (run_android_tests w tests lg)) = length tests"
  using run_android_tests_ids [of w tests lg] by (metis length_map)

lemma run_android_tests_skip_unknown:
  assumes "android_test_functions tid = None"
  shows "run_android_tests w (xs @ tid # ys) lg =
     (case run_android_tests w (xs @ ys) lg of
        (rs, lg') \<Rightarrow> (take (length xs) rs @ [not_implemented tid] @ drop (length xs) rs, lg'))"
proof -
  obtain r1 lg1 where a: "run_android_tests w xs lg = (r1, lg1)" by (cases "run_android_tests w xs lg")
  obtain r2 lg2 where b: "run_android_tests w ys lg1 = (r2, lg2)" by (cases "run_android_tests w ys lg1")
  have len: "length r1 = length xs" using run_android_tests_length [of w xs lg] a by simp
  show ?thesis
    using assms a b len by (simp add: run_android_tests_append not_implemented_def)
qed


lemma win_battery_verdict_shape:
  assumes "win_battery_verdict out = Inr r"
  shows "test_id r = ''battery.health'' \<and> consistent_outcome r \<and> outcome_sound (17 / 20) r"
proof -
  from assms obtain st m e a where r: "r = TestResult_init ''battery.health'' ''power'' st m e (17 / 20) a"
    and st: "st = ''pass'' \<or> st = ''warn'' \<or> st = ''fail''"
    unfolding win_battery_verdict_def Let_def
    by (auto split: sum.splits option.splits if_splits)
  show ?thesis unfolding r using verdict_sound [OF st, of "17 / 20"] by simp
qed

lemma win_storage_verdict_shape:
  assumes "win_storage_verdict t u f = Inr r"
  shows "test_id r = ''storage.health'' \<and> consistent_outcome r \<and> outcome_sound (19 / 20) r"
proof -
  from assms obtain st m e a where r: "r = TestResult_init ''storage.health'' ''storage'' st m e (19 / 20) a"
    and st: "st = ''pass'' \<or> st = ''warn'' \<or> st = ''fail''"
    unfolding win_storage_verdict_def Let_def
    by (auto split: if_splits)
  show ?thesis unfolding r using verdict_sound [OF st, of "19 / 20"] by simp
qed

lemma cpu_verdict_shape:
  "test_id (cpu_verdict p c f) = ''cpu.temperature'' \<and> consistent_outcome (cpu_verdict p c f) \<and>
   outcome_sound (4 / 5) (cpu_verdict p c f)"
  by (simp add: cpu_verdict_def Let_def consistent_outcome_def outcome_sound_def)

lemma memory_verdict_shape:
  "test_id (memory_verdict t a u p) = ''memory.test'' \<and> consistent_outcome (memory_verdict t a u p) \<and>
   outcome_sound (19 / 20) (memory_verdict t a u p)"
  by (simp add: memory_verdict_def Let_def consistent_outcome_def outcome_sound_def)

lemma battery_report_shape:
  assumes "battery_report w d n = (Inr r, n')"
  shows "test_id r = ''battery.health'' \<and> consistent_outcome r \<and> outcome_sound (17 / 20) r"
  using assms unfolding battery_report_def Let_def
  by (auto split: prod.splits if_splits dest!: win_battery_verdict_shape simp: error_sound)

lemma test_battery_health_shape:
  assumes "test_battery_health w n = (r, n')"
  shows "test_id r = ''battery.health'' \<and> consistent_outcome r \<and> outcome_sound (17 / 20) r"
  using assms unfolding test_battery_health_def battery_error_def
  by (auto split: prod.splits sum.splits option.splits
      dest!: battery_report_shape simp: error_sound)

lemma test_storage_health_shape:
  assumes "test_storage_health w n = (r, n')"
  shows "test_id r = ''storage.health'' \<and> consistent_outcome r \<and> outcome_sound (19 / 20) r"
  using assms unfolding test_storage_health_def
  by (auto split: prod.splits if_splits sum.splits
      dest!: win_storage_verdict_shape simp: error_sound)

lemma test_cpu_temperature_shape:
  assumes "test_cpu_temperature w n = (r, n')"
  shows "test_id r = ''cpu.temperature'' \<and> consistent_outcome r \<and> outcome_sound (4 / 5) r"
  using assms unfolding test_cpu_temperature_def cpu_error_def
  by (auto split: sum.splits simp: error_sound cpu_verdict_shape)

lemma test_memory_shape:
  assumes "test_memory w n = (r, n')"
  shows "test_id r = ''memory.test'' \<and> consistent_outcome r \<and> outcome_sound (19 / 20) r"
  using assms unfolding test_memory_def
  by (auto split: sum.splits prod.splits simp: error_sound memory_verdict_shape)

lemma windows_catalog_shape:
  assumes "windows_test_functions tid = Some f" and "f w n = (x, n')"
  shows "\<exists>r. x = Inr r \<and> test_id r = tid \<and> consistent_outcome r \<and>
             outcome_sound (windows_confidence tid) r"
  using assms unfolding windows_test_functions_def windows_confidence_def
  by (auto split: if_splits prod.splits
      dest!: test_battery_health_shape test_storage_health_shape
             test_cpu_temperature_shape test_memory_shape)

lemma run_windows_diagnostics_ids: "map test_id (fst (run_windows_diagnostics w tests n)) = tests"
proof (induction tests arbitrary: n)
  case Nil
  show ?case by simp
next
  case (Cons tid tests)
  show ?case
  proof (cases "windows_test_functions tid")
    case None
    then show ?thesis using Cons.IH [of n] by (auto split: prod.splits)
  next
    case (Some f)
    obtain x n1 where f: "f w n = (x, n1)" by (cases "f w n")
    from windows_catalog_shape [OF Some f] obtain r where "x = Inr r" "test_id r = tid" by blast
    then show ?thesis using Some f Cons.IH [of n1] by (auto split: prod.splits)
  qed
qed

lemma run_windows_diagnostics_consistent:
  "list_all (\<lambda>r. consistent_outcome r \<and> outcome_sound (windows_confidence (test_id r)) r)
     (fst (run_windows_diagnostics w tests n))"
proof (induction tests arbitrary: n)
  case Nil
  show ?case by simp
next
  case (Cons tid tests)
  show ?case
  proof (cases "windows_test_functions tid")
    case None
    then show ?thesis using Cons.IH [of n] by (auto simp: error_sound split: prod.splits)
  next
    case (Some f)
    obtain x n1 where f: "f w n = (x, n1)" by (cases "f w n")
    from windows_catalog_shape [OF Some f] obtain r
      where "x = Inr r" "test_id r = tid" "consistent_outcome r" "outcome_sound (windows_confidence tid) r"
      by blast
    then show ?thesis using Some f Cons.IH [of n1] by (auto split: prod.splits)
  qed
qed

lemma run_windows_diagnostics_append:
  "run_windows_diagnostics w (xs @ ys) n =
     (case run_windows_diagnostics w xs n of
        (r1, n1) \<Rightarrow> (case run_windows_diagnostics w ys n1 of (r2, n2) \<Rightarrow> (r1 @ r2, n2)))"
  by (induction xs arbitrary: n) (auto split: prod.splits option.splits sum.splits)

lemma run_windows_diagnostics_length:
  "length (fst (run_windows_diagnostics w tests n)) = length tests"
  using run_windows_diagnostics_ids [of w tests n] by (metis length_map)

lemma run_windows_diagnostics_skip_unknown:
  assumes "windows_test_functions tid = None"
  shows "run_windows_diagnostics w (xs @ tid # ys) n =
     (case run_windows_diagnostics w (xs @ ys) n of
        (rs, n') \<Rightarrow> (take (length xs) rs @ [not_implemented tid] @ drop (length xs) rs, n'))"
proof -
  obtain r1 n1 where a: "run_windows_diagnostics w xs n = (r1, n1)"
    by (cases "run_windows_diagnostics w xs n")
  obtain r2 n2 where b: "run_windows_diagnostics w ys n1 = (r2, n2)"
    by (cases "run_windows_diagnostics w ys n1")
  have len: "length r1 = length xs" using run_windows_diagnostics_length [of w xs n] a by simp
  show ?thesis
    using assms a b len by (simp add: run_windows_diagnostics_append not_implemented_def)
qed

section \<open>The claims\<close>

text \<open>
  Claim C1. For every diagnostic run, Android or Windows, and every list of requested test
  ids, the returned outcome list has exactly one outcome per requested id, in the order of
  the request, however many of the tests end in an error.
\<close>

theorem outcomes_follow_request:
  "map test_id (fst (run_android_diagnostics w tests lg)) = tests \<and>
   length (fst (run_android_diagnostics w tests lg)) = length tests \<and>
   map test_id (fst (run_windows_diagnostics ww tests n)) = tests \<and>
   length (fst (run_windows_diagnostics ww tests n)) = length tests"
proof -
  have a: "map test_id (fst (run_android_diagnostics w tests lg)) = tests"
    by (simp add: run_android_diagnostics_def unreachable_result_def run_android_tests_ids
        comp_def split: prod.splits)
  have b: "map test_id (fst (run_windows_diagnostics ww tests n)) = tests"
    by (rule run_windows_diagnostics_ids)
  have la: "length (fst (run_android_diagnostics w tests lg)) = length tests"
    using a by (metis length_map)
  have lb: "length (fst (run_windows_diagnostics ww tests n)) = length tests"
    using b by (metis length_map)
  show ?thesis using a b la lb by simp
qed

text \<open>
  Claim C2. In an Android run whose reachability check fails, every requested test id gets
  an outcome of status error carrying the same list of transport advisories, and the only
  command the run issues is the reachability probe itself: no test function runs.
\<close>

theorem unreachable_transport_short_circuit:
  assumes "\<not> fst (check_adb_connection w lg)"
  shows "run_android_diagnostics w tests lg =
           (map unreachable_result tests, lg @ [[''adb'', ''devices'']]) \<and>
         list_all (\<lambda>r. status r = ''error'' \<and> advisories r = transport_advisories)
           (fst (run_android_diagnostics w tests lg)) \<and>
         map test_id (fst (run_android_diagnostics w tests lg)) = tests"
proof -
  obtain b lg1 where c: "check_adb_connection w lg = (b, lg1)" by (cases "check_adb_connection w lg")
  with assms have nb: "\<not> b" by simp
  have lg1: "lg1 = lg @ [[''adb'', ''devices'']]" using check_adb_connection_log [OF c] .
  have run: "run_android_diagnostics w tests lg = (map unreachable_result tests, lg @ [[''adb'', ''devices'']])"
    using c nb lg1 by (simp add: run_android_diagnostics_def)
  show ?thesis
    by (simp add: run unreachable_result_def list_all_iff comp_def)
qed

theorem unreachable_transport_short_circuit_witness:
  "\<not> fst (check_adb_connection unplugged_world []) \<and>
   run_android_diagnostics unplugged_world [''battery.health'', ''storage.health''] [] =
     ([unreachable_result ''battery.health'', unreachable_result ''storage.health''],
      [[''adb'', ''devices'']]) \<and>
   map status (fst (run_android_diagnostics unplugged_world [''battery.health'', ''storage.health''] [])) =
     [''error'', ''error''] \<and>
   map advisories (fst (run_android_diagnostics unplugged_world [''battery.health'', ''storage.health''] [])) =
     [transport_advisories, transport_advisories]"
proof -
  have h: "\<not> fst (check_adb_connection unplugged_world [])" by code_simp
  show ?thesis
    using h unreachable_transport_short_circuit [OF h, of "[''battery.health'', ''storage.health'']"]
    by (simp add: unreachable_result_def)
qed

text \<open>
  Claim C9, as the code has it. The runner asks \<^verbatim>\<open>adb devices\<close> once before the batch;
  if a device answers, every requested id of the catalogue asks it once more at the start
  of its own test function. A run thus evaluates the reachability check once when it
  fails, and once plus the number of catalogued ids requested when it succeeds.
\<close>

theorem reachability_probe_count:
  "count_devices (snd (run_android_diagnostics w tests lg)) =
     count_devices lg +
     (if fst (check_adb_connection w lg)
      then 1 + length (filter (\<lambda>t. t \<in> dom android_test_functions) tests)
      else 1)"
proof -
  obtain b lg1 where c: "check_adb_connection w lg = (b, lg1)" by (cases "check_adb_connection w lg")
  have lg1: "lg1 = lg @ [[''adb'', ''devices'']]" using check_adb_connection_log [OF c] .
  show ?thesis
    using c lg1 run_android_tests_devices [of w tests lg1]
    by (simp add: run_android_diagnostics_def dom_def)
qed

text \<open>
  The claim as stated (the check is evaluated exactly once per run, and no test
  re-evaluates it) fails on a phone that answers: one requested battery test makes two
  evaluations, the second one inside the test function.
\<close>

theorem reachability_probe_twice:
  "count_devices (snd (run_android_diagnostics (phone_world []) [''battery.health''] [])) = 2 \<and>
   count_devices (snd (run_android_diagnostics (phone_world []) [''battery.health''] [])) \<noteq> 1 \<and>
   snd (test_android_battery (phone_world []) [[''adb'', ''devices'']]) =
     [[''adb'', ''devices''], [''adb'', ''devices''], [''adb'', ''shell'', ''dumpsys'', ''battery'']]"
  by code_simp

theorem reachability_probe_count_witness:
  "count_devices (snd (run_android_diagnostics (phone_world [])
      [''battery.health'', ''foo.bar'', ''sensors.test''] [])) = 3 \<and>
   count_devices (snd (run_android_diagnostics unplugged_world
      [''battery.health'', ''foo.bar'', ''sensors.test''] [])) = 1"
proof -
  have a: "fst (check_adb_connection (phone_world []) [])" by code_simp
  have b: "\<not> fst (check_adb_connection unplugged_world [])" by code_simp
  have d: "filter (\<lambda>t. t \<in> dom android_test_functions) [''battery.health'', ''foo.bar'', ''sensors.test'']
            = [''battery.health'', ''sensors.test'']"
    by (simp add: android_test_functions_def dom_def)
  show ?thesis
    using a b d
      reachability_probe_count [of "phone_world []" "[''battery.health'', ''foo.bar'', ''sensors.test'']" "[]"]
      reachability_probe_count [of unplugged_world "[''battery.health'', ''foo.bar'', ''sensors.test'']" "[]"]
    by simp
qed

text \<open>
  Claim C6, as the code has it. For a requested id outside the catalogue, a Windows run,
  and an Android run whose reachability check succeeded, yields the synthetic outcome
  \<open>not_implemented\<close> (status error, category unknown, explanation naming the id as not
  implemented) at the id's position, and the other ids yield what they yield in the batch
  without it.
\<close>

theorem unknown_test_not_implemented:
  "(windows_test_functions tid = None \<longrightarrow>
      run_windows_diagnostics ww (xs @ tid # ys) n =
        (case run_windows_diagnostics ww (xs @ ys) n of
           (rs, n') \<Rightarrow> (take (length xs) rs @ [not_implemented tid] @ drop (length xs) rs, n'))) \<and>
   (android_test_functions tid = None \<and> fst (check_adb_connection w lg) \<longrightarrow>
      run_android_diagnostics w (xs @ tid # ys) lg =
        (case run_android_diagnostics w (xs @ ys) lg of
           (rs, lg') \<Rightarrow> (take (length xs) rs @ [not_implemented tid] @ drop (length xs) rs, lg'))) \<and>
   status (not_implemented tid) = ''error'' \<and>
   category (not_implemented tid) = ''unknown'' \<and>
   explanation (not_implemented tid) = ''Test not implemented: '' @ tid"
proof -
  have a: "windows_test_functions tid = None \<longrightarrow>
      run_windows_diagnostics ww (xs @ tid # ys) n =
        (case run_windows_diagnostics ww (xs @ ys) n of
           (rs, n') \<Rightarrow> (take (length xs) rs @ [not_implemented tid] @ drop (length xs) rs, n'))"
    by (rule impI) (rule run_windows_diagnostics_skip_unknown)
  have b: "android_test_functions tid = None \<and> fst (check_adb_connection w lg) \<longrightarrow>
      run_android_diagnostics w (xs @ tid # ys) lg =
        (case run_android_diagnostics w (xs @ ys) lg of
           (rs, lg') \<Rightarrow> (take (length xs) rs @ [not_implemented tid] @ drop (length xs) rs, lg'))"
  proof (intro impI, elim conjE)
    assume none: "android_test_functions tid = None" and ok: "fst (check_adb_connection w lg)"
    obtain lg1 where c: "check_adb_connection w lg = (True, lg1)"
      using ok by (cases "check_adb_connection w lg") simp
    show "run_android_diagnostics w (xs @ tid # ys) lg =
        (case run_android_diagnostics w (xs @ ys) lg of
           (rs, lg') \<Rightarrow> (take (length xs) rs @ [not_implemented tid] @ drop (length xs) rs, lg'))"
      using c run_android_tests_skip_unknown [OF none, of w xs ys lg1]
      by (simp add: run_android_diagnostics_def)
  qed
  have c: "status (not_implemented tid) = ''error'' \<and>
   category (not_implemented tid) = ''unknown'' \<and>
   explanation (not_implemented tid) = ''Test not implemented: '' @ tid"
    by (simp add: not_implemented_def)
  show ?thesis using a b c by blast
qed

text \<open>
  The claim as stated fails for an Android run with no device attached: the unknown id gets
  the transport outcome, whose explanation does not name the test as not implemented.
\<close>

theorem unknown_test_unreachable_explanation:
  "android_test_functions ''foo.bar'' = None \<and>
   fst (run_android_diagnostics unplugged_world [''foo.bar''] []) = [unreachable_result ''foo.bar''] \<and>
   explanation (unreachable_result ''foo.bar'') =
     ''No Android device connected. Enable USB debugging and connect device.'' \<and>
   explanation (unreachable_result ''foo.bar'') \<noteq> ''Test not implemented: foo.bar''"
proof -
  have h: "\<not> fst (check_adb_connection unplugged_world [])" by code_simp
  have a: "android_test_functions ''foo.bar'' = None" by (simp add: android_test_functions_def)
  have b: "fst (run_android_diagnostics unplugged_world [''foo.bar''] []) = [unreachable_result ''foo.bar'']"
    using h by (simp add: run_android_diagnostics_def split_def)
  have c: "explanation (unreachable_result ''foo.bar'') =
     ''No Android device connected. Enable USB debugging and connect device.''"
    by (simp add: unreachable_result_def)
  have d: "''No Android device connected. Enable USB debugging and connect device.'' \<noteq> ''Test not implemented: foo.bar''"
    by simp
  show ?thesis using a b c d by simp
qed

theorem unknown_test_not_implemented_witness:
  "windows_test_functions ''foo.bar'' = None \<and>
   android_test_functions ''foo.bar'' = None \<and>
   fst (check_adb_connection (phone_world []) []) \<and>
   map status
     (fst (run_windows_diagnostics (laptop_world 50 100) [''cpu.temperature'', ''foo.bar'', ''memory.test''] 0)) =
     [''pass'', ''error'', ''pass''] \<and>
   map explanation
     (fst (run_android_diagnostics (phone_world []) [''battery.health'', ''foo.bar'', ''sensors.test''] [])) =
     [''Battery level: 80%, Health: Good'', ''Test not implemented: foo.bar'',
      ''Could not retrieve sensor information'']"
proof -
  have a: "windows_test_functions ''foo.bar'' = None" by (simp add: windows_test_functions_def)
  have b: "android_test_functions ''foo.bar'' = None" by (simp add: android_test_functions_def)
  have c: "fst (check_adb_connection (phone_world []) [])" by code_simp
  have w0: "map status
     (fst (run_windows_diagnostics (laptop_world 50 100) ([''cpu.temperature''] @ [''memory.test'']) 0)) =
     [''pass'', ''pass'']" by code_simp
  have a0: "map explanation
     (fst (run_android_diagnostics (phone_world []) ([''battery.health''] @ [''sensors.test'']) [])) =
     [''Battery level: 80%, Health: Good'', ''Could not retrieve sensor information'']" by code_simp
  note t = unknown_test_not_implemented
      [where tid = "''foo.bar''" and ww = "laptop_world 50 100" and xs = "[''cpu.temperature'']"
         and ys = "[''memory.test'']" and n = 0]
  note u = unknown_test_not_implemented
      [where tid = "''foo.bar''" and w = "phone_world []" and xs = "[''battery.health'']"
         and ys = "[''sensors.test'']" and lg = "[]"]
  from t a have "fst (run_windows_diagnostics (laptop_world 50 100) ([''cpu.temperature''] @ ''foo.bar'' # [''memory.test'']) 0) =
      take 1 (fst (run_windows_diagnostics (laptop_world 50 100) ([''cpu.temperature''] @ [''memory.test'']) 0)) @
      [not_implemented ''foo.bar''] @
      drop 1 (fst (run_windows_diagnostics (laptop_world 50 100) ([''cpu.temperature''] @ [''memory.test'']) 0))"
    by (simp only: split_def fst_conv list.size One_nat_def add_0 simp_thms)
  then have "map status (fst (run_windows_diagnostics (laptop_world 50 100) ([''cpu.temperature''] @ ''foo.bar'' # [''memory.test'']) 0)) =
      take 1 (map status (fst (run_windows_diagnostics (laptop_world 50 100) ([''cpu.temperature''] @ [''memory.test'']) 0))) @
      [status (not_implemented ''foo.bar'')] @
      drop 1 (map status (fst (run_windows_diagnostics (laptop_world 50 100) ([''cpu.temperature''] @ [''memory.test'']) 0)))"
    by (simp only: take_map drop_map map_append list.map)
  then have w1: "map status (fst (run_windows_diagnostics (laptop_world 50 100) ([''cpu.temperature''] @ ''foo.bar'' # [''memory.test'']) 0)) =
     [''pass'', ''error'', ''pass'']"
    unfolding w0 using t by simp
  from u b c have "fst (run_android_diagnostics (phone_world []) ([''battery.health''] @ ''foo.bar'' # [''sensors.test'']) []) =
      take 1 (fst (run_android_diagnostics (phone_world []) ([''battery.health''] @ [''sensors.test'']) [])) @
      [not_implemented ''foo.bar''] @
      drop 1 (fst (run_android_diagnostics (phone_world []) ([''battery.health''] @ [''sensors.test'']) []))"
    by (simp only: split_def fst_conv list.size One_nat_def add_0 simp_thms)
  then have "map explanation (fst (run_android_diagnostics (phone_world []) ([''battery.health''] @ ''foo.bar'' # [''sensors.test'']) [])) =
      take 1 (map explanation (fst (run_android_diagnostics (phone_world []) ([''battery.health''] @ [''sensors.test'']) []))) @
      [explanation (not_implemented ''foo.bar'')] @
      drop 1 (map explanation (fst (run_android_diagnostics (phone_world []) ([''battery.health''] @ [''sensors.test'']) [])))"
    by (simp only: take_map drop_map map_append list.map)
  then have a1: "map explanation (fst (run_android_diagnostics (phone_world []) ([''battery.health''] @ ''foo.bar'' # [''sensors.test'']) [])) =
     [''Battery level: 80%, Health: Good'', ''Test not implemented: foo.bar'',
      ''Could not retrieve sensor information'']"
    unfolding a0 using u by simp
  show ?thesis using a b c w1 a1 by simp
qed

text \<open>
  Claim C4, on the Android agent: a \<^verbatim>\<open>df\<close> line whose total is zero. The guard of line 192
  sets the usage to 0 instead of dividing, the handler of line 201 never runs, and the test
  answers pass for a partition of no capacity where the claim (and the Windows agent, where
  the division raises and the test ends in an error) has an error.
\<close>

theorem zero_total_storage_reported_pass:
  "status (fst (test_android_storage (phone_world ''/dev/block/dm-0 0 0 0 0% /data'') [])) = ''pass'' \<and>
   explanation (fst (test_android_storage (phone_world ''/dev/block/dm-0 0 0 0 0% /data'') [])) =
     ''Storage usage is healthy at 0%. 0.0 GB available.'' \<and>
   confidence (fst (test_android_storage (phone_world ''/dev/block/dm-0 0 0 0 0% /data'') [])) = 85 / 100"
  by code_simp

text \<open>
  Claim C7. Every outcome that a test function or a runner produces has confidence 0
  exactly when its status is error, an error outcome has a non-empty explanation, and a
  pass, warn or fail outcome carries the nonzero confidence constant of its capability:
  0.90, 0.85, 0.75 and 0.80 for the Android battery, storage, sensor and connectivity
  tests, 0.85, 0.95, 0.80 and 0.95 for the Windows battery, storage, processor and memory
  tests.
\<close>

theorem outcomes_confidence_consistent:
  "list_all consistent_outcome (fst (run_android_diagnostics w tests lg)) \<and>
   list_all consistent_outcome (fst (run_windows_diagnostics ww tests n)) \<and>
   consistent_outcome (fst (test_android_battery w lg)) \<and>
   consistent_outcome (fst (test_android_storage w lg)) \<and>
   consistent_outcome (fst (test_android_sensors w lg)) \<and>
   consistent_outcome (fst (test_android_connectivity w lg)) \<and>
   consistent_outcome (fst (test_battery_health ww n)) \<and>
   consistent_outcome (fst (test_storage_health ww n)) \<and>
   consistent_outcome (fst (test_cpu_temperature ww n)) \<and>
   consistent_outcome (fst (test_memory ww n)) \<and>
   outcome_sound (90 / 100) (fst (test_android_battery w lg)) \<and>
   outcome_sound (85 / 100) (fst (test_android_storage w lg)) \<and>
   outcome_sound (75 / 100) (fst (test_android_sensors w lg)) \<and>
   outcome_sound (80 / 100) (fst (test_android_connectivity w lg)) \<and>
   outcome_sound (85 / 100) (fst (test_battery_health ww n)) \<and>
   outcome_sound (95 / 100) (fst (test_storage_health ww n)) \<and>
   outcome_sound (80 / 100) (fst (test_cpu_temperature ww n)) \<and>
   outcome_sound (95 / 100) (fst (test_memory ww n)) \<and>
   list_all (\<lambda>r. outcome_sound (android_confidence (test_id r)) r)
     (fst (run_android_diagnostics w tests lg)) \<and>
   list_all (\<lambda>r. outcome_sound (windows_confidence (test_id r)) r)
     (fst (run_windows_diagnostics ww tests n))"
proof -
  have u: "list_all (\<lambda>r. consistent_outcome r \<and> outcome_sound (android_confidence (test_id r)) r)
             (map unreachable_result tests)"
    by (simp add: list_all_iff unreachable_result_def error_sound)
  have a: "list_all (\<lambda>r. consistent_outcome r \<and> outcome_sound (android_confidence (test_id r)) r)
             (fst (run_android_diagnostics w tests lg))"
    using u run_android_tests_consistent
    by (simp add: run_android_diagnostics_def split: prod.splits)
  have b: "list_all (\<lambda>r. consistent_outcome r \<and> outcome_sound (windows_confidence (test_id r)) r)
             (fst (run_windows_diagnostics ww tests n))"
    by (rule run_windows_diagnostics_consistent)
  have t1: "consistent_outcome (fst (test_android_battery w lg)) \<and>
            outcome_sound (9 / 10) (fst (test_android_battery w lg))"
    using test_android_battery_shape [of w lg] by (cases "test_android_battery w lg") simp
  have t2: "consistent_outcome (fst (test_android_storage w lg)) \<and>
            outcome_sound (17 / 20) (fst (test_android_storage w lg))"
    using test_android_storage_shape [of w lg] by (cases "test_android_storage w lg") simp
  have t3: "consistent_outcome (fst (test_android_sensors w lg)) \<and>
            outcome_sound (3 / 4) (fst (test_android_sensors w lg))"
    using test_android_sensors_shape [of w lg] by (cases "test_android_sensors w lg") simp
  have t4: "consistent_outcome (fst (test_android_connectivity w lg)) \<and>
            outcome_sound (4 / 5) (fst (test_android_connectivity w lg))"
    using test_android_connectivity_shape [of w lg] by (cases "test_android_connectivity w lg") simp
  have t5: "consistent_outcome (fst (test_battery_health ww n)) \<and>
            outcome_sound (17 / 20) (fst (test_battery_health ww n))"
    using test_battery_health_shape [of ww n] by (cases "test_battery_health ww n") simp
  have t6: "consistent_outcome (fst (test_storage_health ww n)) \<and>
            outcome_sound (19 / 20) (fst (test_storage_health ww n))"
    using test_storage_health_shape [of ww n] by (cases "test_storage_health ww n") simp
  have t7: "consistent_outcome (fst (test_cpu_temperature ww n)) \<and>
            outcome_sound (4 / 5) (fst (test_cpu_temperature ww n))"
    using test_cpu_temperature_shape [of ww n] by (cases "test_cpu_temperature ww n") simp
  have t8: "consistent_outcome (fst (test_memory ww n)) \<and>
            outcome_sound (19 / 20) (fst (test_memory ww n))"
    using test_memory_shape [of ww n] by (cases "test_memory ww n") simp
  show ?thesis
    using a b t1 t2 t3 t4 t5 t6 t7 t8 by (simp add: list_all_iff)
qed

theorem outcomes_confidence_consistent_witness:
  "map (\<lambda>r. (test_id r, status r, confidence r))
     (fst (run_android_diagnostics healthy_phone_world
            [''battery.health'', ''storage.health'', ''sensors.test'', ''network.connectivity'', ''foo.bar''] [])) =
     [(''battery.health'', ''warn'', 9 / 10), (''storage.health'', ''warn'', 17 / 20),
      (''sensors.test'', ''pass'', 3 / 4), (''network.connectivity'', ''warn'', 4 / 5),
      (''foo.bar'', ''error'', 0)] \<and>
   map (\<lambda>r. (test_id r, status r, confidence r))
     (fst (run_windows_diagnostics (laptop_world 50 100)
            [''battery.health'', ''cpu.temperature'', ''memory.test'', ''foo.bar''] 0)) =
     [(''battery.health'', ''pass'', 17 / 20), (''cpu.temperature'', ''pass'', 4 / 5),
      (''memory.test'', ''pass'', 19 / 20), (''foo.bar'', ''error'', 0)] \<and>
   status (fst (test_storage_health (laptop_world 50 100) 0)) = ''pass'' \<and>
   confidence (fst (test_storage_health (laptop_world 50 100) 0)) = 19 / 20 \<and>
   list_all (\<lambda>r. outcome_sound (android_confidence (test_id r)) r)
     (fst (run_android_diagnostics healthy_phone_world
            [''battery.health'', ''storage.health'', ''sensors.test'', ''network.connectivity'', ''foo.bar''] [])) \<and>
   list_all (\<lambda>r. outcome_sound (windows_confidence (test_id r)) r)
     (fst (run_windows_diagnostics (laptop_world 50 100)
            [''battery.health'', ''cpu.temperature'', ''memory.test'', ''foo.bar''] 0)) \<and>
   outcome_sound (95 / 100) (fst (test_storage_health (laptop_world 50 100) 0))"
proof -
  have a: "map (\<lambda>r. (test_id r, status r, confidence r))
     (fst (run_android_diagnostics healthy_phone_world
            [''battery.health'', ''storage.health'', ''sensors.test'', ''network.connectivity'', ''foo.bar''] [])) =
     [(''battery.health'', ''warn'', 9 / 10), (''storage.health'', ''warn'', 17 / 20),
      (''sensors.test'', ''pass'', 3 / 4), (''network.connectivity'', ''warn'', 4 / 5),
      (''foo.bar'', ''error'', 0)]"
    by code_simp
  have b: "map (\<lambda>r. (test_id r, status r, confidence r))
     (fst (run_windows_diagnostics (laptop_world 50 100)
            [''battery.health'', ''cpu.temperature'', ''memory.test'', ''foo.bar''] 0)) =
     [(''battery.health'', ''pass'', 17 / 20), (''cpu.temperature'', ''pass'', 4 / 5),
      (''memory.test'', ''pass'', 19 / 20), (''foo.bar'', ''error'', 0)]"
    by code_simp
  have h: "py_fmul (py_truediv 50 100) 100 = 50" by code_simp
  have c: "status (fst (test_storage_health (laptop_world 50 100) 0)) = ''pass'' \<and>
           confidence (fst (test_storage_health (laptop_world 50 100) 0)) = 19 / 20"
    by (simp add: test_storage_health_def run_command_def laptop_world_def win_storage_verdict_def
        Let_def h py_round1_def round_half_even_def)
  note t = outcomes_confidence_consistent
    [where w = healthy_phone_world and lg = "[]" and ww = "laptop_world 50 100" and n = 0
       and tests = "[''battery.health'', ''storage.health'', ''sensors.test'', ''network.connectivity'', ''foo.bar'']"]
  note u = outcomes_confidence_consistent
    [where w = healthy_phone_world and lg = "[]" and ww = "laptop_world 50 100" and n = 0
       and tests = "[''battery.health'', ''cpu.temperature'', ''memory.test'', ''foo.bar'']"]
  show ?thesis using a b c t u by blast
qed

text \<open>Rounding: to the nearest integer, to one decimal, and to the nearest double.\<close>

lemma pow2_powi: "pow2 e = 2 powi e"
  by (simp add: pow2_def power_int_def field_simps)

lemma pow2_pos [simp]: "0 < pow2 e"
  by (simp add: pow2_powi)

















text \<open>For 23 passed of 80 the doubles give 28.7 where exact arithmetic would give 28.8.\<close>

lemma health_score_23_of_80:
  "py_round1 (py_fmul (py_truediv 23 80) 100) = 287 / 10 \<and>
   py_round1 (23 / 80 * 100) = 288 / 10"
  by code_simp




















end
